theory Spec2Isabelle
  imports Main
begin

section \<open>The Elasticsearch notifier of botkube (pkg/notify/elasticsearch.go)\<close>

text \<open>
  The notifier forwards one event to a date-partitioned index: it asks whether the index
  of the day exists, creates it when it does not, indexes the event and flushes.
  Everything the Go code does beyond returning a value is explicit here:
  the clock it reads (\<open>time.Now()\<close>), the requests it hands to the Elasticsearch
  client, the answers it gets, and the lines it logs.
\<close>

subsection \<open>Dates and the index suffix\<close>

text \<open>
  \<open>time.Now()\<close> yields a \<open>time.Time\<close>; the layout used by the notifier reads only
  the calendar date of it (\<open>t.Date()\<close>), so the model keeps year, month and day.
\<close>

record Time =
  Year :: int
  Month :: int
  Day :: int

text \<open>Line 41: the date format that is appended to the index name.\<close>

definition indexSuffixFormat :: string where
  "indexSuffixFormat = ''02-01-2006''"

text \<open>Line 43 (used by the constructor only).\<close>

definition awsService :: string where
  "awsService = ''es''"

text \<open>
  Decimal digits of an unsigned number, most significant first; \<open>0\<close> has the one
  digit \<open>0\<close>.
\<close>

fun digits :: "nat \<Rightarrow> string" where
  "digits u = (if u < 10 then [''0123456789'' ! u]
               else digits (u div 10) @ [''0123456789'' ! (u mod 10)])"

declare digits.simps [simp del]

text \<open>
  Go's \<open>appendInt(b, x, width)\<close> of package time: a minus sign for a negative number,
  then the decimal digits of the absolute value, padded with zeros on the left up to
  \<open>width\<close> digits. A number with more digits than \<open>width\<close> is written in full.
\<close>

definition appendInt :: "string \<Rightarrow> int \<Rightarrow> nat \<Rightarrow> string" where
  "appendInt b x width =
     (let u = nat \<bar>x\<bar>;
          b = (if x < 0 then b @ ''-'' else b);
          ds = digits u
      in b @ replicate (width - length ds) (CHR ''0'') @ ds)"

text \<open>
  \<open>t.Format(layout)\<close>, for the part of Go's layout language that \<open>indexSuffixFormat\<close>
  uses: \<open>2006\<close> is the year on four digits, \<open>01\<close> the month on two, \<open>02\<close> the day of
  the month on two; the other characters of this layout (the two dashes) stand for
  themselves. The other reference-time fields of Go (hours, names of months, zones
  and so on) do not occur in the layout of the notifier and are not modelled.
\<close>

fun Format :: "Time \<Rightarrow> string \<Rightarrow> string" where
  "Format t [] = []"
| "Format t (c # cs) =
     (if take 4 (c # cs) = ''2006'' then appendInt [] (Year t) 4 @ Format t (drop 3 cs)
      else if take 2 (c # cs) = ''01'' then appendInt [] (Month t) 2 @ Format t (drop 1 cs)
      else if take 2 (c # cs) = ''02'' then appendInt [] (Day t) 2 @ Format t (drop 1 cs)
      else c # Format t cs)"

subsection \<open>The sink, the event and the requests\<close>

text \<open>
  Lines 47 to 55. \<open>ELSClient\<close> is the handle of the client library (\<open>*elastic.Client\<close>),
  of a type \<open>'c\<close> the notifier never looks into. \<open>Shards\<close> and \<open>Replicas\<close> are Go \<open>int\<close>s
  that are only copied, never computed with, so they are integers here.
\<close>

record 'c ElasticSearch =
  ELSClient :: 'c
  Server :: string
  Index :: string
  Shards :: int
  Replicas :: int
  Type :: string
  ClusterName :: string

text \<open>
  Modelled from the spec: the declaration of \<open>events.Event\<close> (package pkg/events) is
  not part of the source at hand. The spec describes the event as a structured record
  that is opaque to the sink beyond one field, the cluster label; \<open>Fields\<close> stands for
  all the other fields, of a type \<open>'p\<close> the notifier never looks into.
\<close>

record 'p Event =
  Cluster :: string
  Fields :: 'p

text \<open>
  Lines 104 to 114: the body of the create request. The fields are \<open>Shards\<close> and
  \<open>Replicas\<close> of struct \<open>index\<close>, \<open>Index\<close> of struct \<open>settings\<close> and \<open>Settings\<close> of
  struct \<open>mapping\<close>; they carry the name of their struct here, since the sink has
  fields of the same names.
\<close>

record index =
  index_Shards :: int
  index_Replicas :: int

record settings =
  settings_Index :: index

record mapping =
  mapping_Settings :: settings





text \<open>
  The four requests the notifier builds with the client library, each with the
  arguments the source gives it:
  \<^item> \<open>IndexExists(name).Do(ctx)\<close>;
  \<^item> \<open>CreateIndex(name).BodyJson(mapping).Do(ctx)\<close>;
  \<^item> \<open>Index().Index(name).Type(type).BodyJson(event).Do(ctx)\<close>;
  \<^item> \<open>Flush().Index(name).Do(ctx)\<close>.
\<close>

datatype 'p request =
    IndexExistsReq string
  | CreateIndexReq string mapping
  | IndexReq string string "'p Event"
  | FlushReq string

text \<open>The index a request addresses, and the shape information it carries, if any.\<close>

fun target_of :: "'p request \<Rightarrow> string" where
  "target_of (IndexExistsReq n) = n"
| "target_of (CreateIndexReq n m) = n"
| "target_of (IndexReq n ty ev) = n"
| "target_of (FlushReq n) = n"




fun is_flush :: "'p request \<Rightarrow> bool" where
  "is_flush (FlushReq n) = True"
| "is_flush (IndexExistsReq n) = False"
| "is_flush (CreateIndexReq n m) = False"
| "is_flush (IndexReq n ty ev) = False"

subsection \<open>The world around the notifier\<close>

text \<open>
  What the notifier does to its surroundings is recorded in order: a line handed to
  the logger, or a request handed to the client together with the answer to it. An
  answer is \<open>Inl err\<close> when \<open>Do\<close> returns an error, and \<open>Inr b\<close> otherwise, where \<open>b\<close> is
  the answer of the existence check (the source discards the result of the other
  three requests).
\<close>

datatype level = Debug | Error

datatype ('p, 'e) effect =
    Logged level string
  | Issued "'p request" "'e + bool"

text \<open>
  The mutable surroundings: the object behind the receiver \<open>e\<close>, the number of times
  the clock has been read, the state of the backend behind the client, and the
  effects so far (oldest first).
\<close>

record ('c, 'p, 'e, 'b) world =
  sink :: "'c ElasticSearch"
  ticks :: nat
  backend :: 'b
  trace :: "('p, 'e) effect list"

text \<open>
  The fixed surroundings: \<open>clock k\<close> is what the \<open>k\<close>-th reading of \<open>time.Now()\<close>
  returns; \<open>transport\<close> is what the client does with a request (an answer and a new
  state of the backend); \<open>err_msg\<close> is the method \<open>Error()\<close> of Go's \<open>error\<close> interface
  on the error type \<open>'e\<close>; \<open>fmt_event\<close> is the rendering of an event by \<open>%+v\<close>.
\<close>

record ('c, 'p, 'e, 'b) env =
  clock :: "nat \<Rightarrow> Time"
  transport :: "'c \<Rightarrow> 'p request \<Rightarrow> 'b \<Rightarrow> ('e + bool) \<times> 'b"
  err_msg :: "'e \<Rightarrow> string"
  fmt_event :: "'p Event \<Rightarrow> string"

definition log_Debug ::
  "string \<Rightarrow> ('c, 'p, 'e, 'b, 'z) world_scheme \<Rightarrow> ('c, 'p, 'e, 'b, 'z) world_scheme" where
  "log_Debug s w = w\<lparr>trace := trace w @ [Logged Debug s]\<rparr>"

definition log_Error ::
  "string \<Rightarrow> ('c, 'p, 'e, 'b, 'z) world_scheme \<Rightarrow> ('c, 'p, 'e, 'b, 'z) world_scheme" where
  "log_Error s w = w\<lparr>trace := trace w @ [Logged Error s]\<rparr>"

definition time_Now ::
  "('c, 'p, 'e, 'b) env \<Rightarrow> ('c, 'p, 'e, 'b, 'z) world_scheme
     \<Rightarrow> Time \<times> ('c, 'p, 'e, 'b, 'z) world_scheme" where
  "time_Now en w = (clock en (ticks w), w\<lparr>ticks := Suc (ticks w)\<rparr>)"

text \<open>
  \<open>e.Index + "-" + time.Now().Format(indexSuffixFormat)\<close>, the expression the source
  writes out at each of its five uses.
\<close>

definition index_name ::
  "('c, 'p, 'e, 'b) env \<Rightarrow> ('c, 'p, 'e, 'b, 'z) world_scheme
     \<Rightarrow> string \<times> ('c, 'p, 'e, 'b, 'z) world_scheme" where
  "index_name en w =
     (let (now, w) = time_Now en w
      in (Index (sink w) @ ''-'' @ Format now indexSuffixFormat, w))"

text \<open>\<open>.Do(ctx)\<close> on a request built from the client handle of the sink.\<close>

definition Do ::
  "('c, 'p, 'e, 'b) env \<Rightarrow> 'p request \<Rightarrow> ('c, 'p, 'e, 'b, 'z) world_scheme
     \<Rightarrow> ('e + bool) \<times> ('c, 'p, 'e, 'b, 'z) world_scheme" where
  "Do en req w =
     (let (r, b) = transport en (ELSClient (sink w)) req (backend w)
      in (r, w\<lparr>backend := b, trace := trace w @ [Issued req r]\<rparr>))"

subsection \<open>SendEvent\<close>

text \<open>
  Lines 147 to 159: index the event, flush, and log the success. The result is the
  error returned (\<open>None\<close> is Go's \<open>nil\<close>) and the world after the call.
\<close>

definition SendEvent_write ::
  "('c, 'p, 'e, 'b) env \<Rightarrow> 'p Event \<Rightarrow> ('c, 'p, 'e, 'b, 'z) world_scheme
     \<Rightarrow> 'e option \<times> ('c, 'p, 'e, 'b, 'z) world_scheme" where
  "SendEvent_write en event w =
     (let (name, w) = index_name en w;
          (r, w) = Do en (IndexReq name (Type (sink w)) event) w
      in case r of
           Inl err \<Rightarrow>
             (Some err, log_Error (''Failed to post data to els. Error:'' @ err_msg en err) w)
         | Inr _ \<Rightarrow>
             (let (name, w) = index_name en w;
                  (r, w) = Do en (FlushReq name) w
              in case r of
                   Inl err \<Rightarrow>
                     (Some err,
                      log_Error (''Failed to flush data to els. Error:'' @ err_msg en err) w)
                 | Inr _ \<Rightarrow>
                     (let (name, w) = index_name en w
                      in (None,
                          log_Debug (''Event successfully sent to ElasticSearch index '' @ name)
                            w))))"

text \<open>
  Lines 117 to 145, continued by \<open>SendEvent_write\<close>. The event is a parameter passed by
  value: the assignment of line 122 changes the copy of the callee.
\<close>

definition SendEvent ::
  "('c, 'p, 'e, 'b) env \<Rightarrow> 'p Event \<Rightarrow> ('c, 'p, 'e, 'b, 'z) world_scheme
     \<Rightarrow> 'e option \<times> ('c, 'p, 'e, 'b, 'z) world_scheme" where
  "SendEvent en event w =
     (let w = log_Debug (''>> Sending to ElasticSearch: '' @ fmt_event en event) w;
          event = event\<lparr>Cluster := ClusterName (sink w)\<rparr>;
          (name, w) = index_name en w;
          (r, w) = Do en (IndexExistsReq name) w
      in case r of
           Inl err \<Rightarrow>
             (Some err, log_Error (''Failed to get index. Error:'' @ err_msg en err) w)
         | Inr exists \<Rightarrow>
             if \<not> exists then
               (let mapping = \<lparr>mapping_Settings =
                                 \<lparr>settings_Index =
                                    \<lparr>index_Shards = Shards (sink w),
                                     index_Replicas = Replicas (sink w)\<rparr>\<rparr>\<rparr>;
                    (name, w) = index_name en w;
                    (r, w) = Do en (CreateIndexReq name mapping) w
                in case r of
                     Inl err \<Rightarrow>
                       (Some err,
                        log_Error (''Failed to create index. Error:'' @ err_msg en err) w)
                   | Inr _ \<Rightarrow> SendEvent_write en event w)
             else SendEvent_write en event w)"

text \<open>Lines 163 to 165.\<close>

definition SendMessage ::
  "string \<Rightarrow> ('c, 'p, 'e, 'b, 'z) world_scheme
     \<Rightarrow> 'e option \<times> ('c, 'p, 'e, 'b, 'z) world_scheme" where
  "SendMessage msg w = (None, w)"

subsection \<open>NewElasticSearch\<close>

text \<open>
  Modelled from the spec: the declaration of \<open>config.Config\<close> (package pkg/config) is
  not part of the source at hand; the spec lists the configuration surface (server
  URL, credentials or signing mode with region and optional role identifier, target
  base name, document-kind label, shard and replica counts, cluster label). The
  record has one field for each path the constructor reads, named by that path under
  \<open>c.CommunicationsConfig\<close> (or under \<open>c\<close>, for the last).
\<close>

record Config =
  ElasticSearch_AWSSigning_Enabled :: bool
  ElasticSearch_AWSSigning_AWSRegion :: string
  ElasticSearch_AWSSigning_RoleArn :: string
  ElasticSearch_Server :: string
  ElasticSearch_Username :: string
  ElasticSearch_Password :: string
  ElasticSearch_Index_Name :: string
  ElasticSearch_Index_Type :: string
  ElasticSearch_Index_Shards :: int
  ElasticSearch_Index_Replicas :: int
  Settings_ClusterName :: string

text \<open>
  The calls into the AWS libraries that cannot fail build a value from their
  arguments: credentials from a session (of a type \<open>'s\<close>) and, for an assumed role,
  its identifier; a signer from credentials.
\<close>

datatype 's Credentials =
    stscreds_NewCredentials 's string
  | ec2rolecreds_NewCredentials 's

datatype 's Signer = v4_NewSigner "'s Credentials"

text \<open>
  The options of \<open>elastic.NewClient\<close> that the constructor uses; \<open>'h\<close> is the type of
  an HTTP client.
\<close>

datatype 'h ClientOptionFunc =
    SetURL string
  | SetScheme string
  | SetHttpClient 'h
  | SetBasicAuth string string
  | SetSniff bool
  | SetHealthcheck bool
  | SetGzip bool

text \<open>
  The calls that can fail are parameters: \<open>session.NewSession()\<close>,
  \<open>aws_signing_client.New(signer, client, service, region)\<close> (the source passes
  \<open>nil\<close> for the client) and \<open>elastic.NewClient(options...)\<close>, each returning an
  error (\<open>Inl\<close>) or its result.
\<close>

record ('s, 'h, 'c, 'e) libraries =
  session_NewSession :: "'e + 's"
  aws_signing_client_New :: "'s Signer \<Rightarrow> 'h option \<Rightarrow> string \<Rightarrow> string \<Rightarrow> 'e + 'h"
  elastic_NewClient :: "'h ClientOptionFunc list \<Rightarrow> 'e + 'c"

text \<open>
  The constructor either panics (\<open>session.Must\<close> panics with the error of
  \<open>NewSession\<close>) or returns: \<open>Return (Inl err)\<close> is \<open>nil, err\<close> and \<open>Return (Inr s)\<close>
  is the new sink with a \<open>nil\<close> error.
\<close>

datatype ('e, 'a) outcome = Panic 'e | Return "'e + 'a"

text \<open>
  Lines 94 to 101: the sink that is returned. \<open>Server\<close> is not among the fields the
  literal sets, so it has Go's zero value, the empty string.
\<close>

definition new_sink :: "'c \<Rightarrow> Config \<Rightarrow> 'c ElasticSearch" where
  "new_sink elsClient c =
     \<lparr>ELSClient = elsClient,
      Server = [],
      Index = ElasticSearch_Index_Name c,
      Shards = ElasticSearch_Index_Shards c,
      Replicas = ElasticSearch_Index_Replicas c,
      Type = ElasticSearch_Index_Type c,
      ClusterName = Settings_ClusterName c\<rparr>"

text \<open>Lines 58 to 102.\<close>

definition NewElasticSearch ::
  "('s, 'h, 'c, 'e) libraries \<Rightarrow> Config \<Rightarrow> ('e, 'c ElasticSearch) outcome" where
  "NewElasticSearch lib c =
     (if ElasticSearch_AWSSigning_Enabled c then
        (case session_NewSession lib of
           Inl err \<Rightarrow> Panic err
         | Inr sess \<Rightarrow>
             (let creds =
                    (if ElasticSearch_AWSSigning_RoleArn c \<noteq> []
                     then stscreds_NewCredentials sess (ElasticSearch_AWSSigning_RoleArn c)
                     else ec2rolecreds_NewCredentials sess);
                  signer = v4_NewSigner creds
              in case aws_signing_client_New lib signer None awsService
                        (ElasticSearch_AWSSigning_AWSRegion c) of
                   Inl err \<Rightarrow> Return (Inl err)
                 | Inr awsClient \<Rightarrow>
                     (case elastic_NewClient lib
                             [SetURL (ElasticSearch_Server c), SetScheme ''https'',
                              SetHttpClient awsClient, SetSniff False,
                              SetHealthcheck False, SetGzip False] of
                        Inl err \<Rightarrow> Return (Inl err)
                      | Inr elsClient \<Rightarrow> Return (Inr (new_sink elsClient c)))))
      else
        (case elastic_NewClient lib
                [SetURL (ElasticSearch_Server c),
                 SetBasicAuth (ElasticSearch_Username c) (ElasticSearch_Password c),
                 SetSniff False, SetHealthcheck False, SetGzip True] of
           Inl err \<Rightarrow> Return (Inl err)
         | Inr elsClient \<Rightarrow> Return (Inr (new_sink elsClient c))))"

subsection \<open>Notions the properties are stated with\<close>

text \<open>The requests among some effects, in the order they were issued.\<close>

fun issued :: "('p, 'e) effect list \<Rightarrow> 'p request list" where
  "issued [] = []"
| "issued (Logged l s # es) = issued es"
| "issued (Issued r a # es) = r # issued es"

text \<open>The requests among some effects that were answered with an error.\<close>

fun failures :: "('p, 'e) effect list \<Rightarrow> 'p request list" where
  "failures [] = []"
| "failures (Logged l s # es) = failures es"
| "failures (Issued r (Inl err) # es) = r # failures es"
| "failures (Issued r (Inr b) # es) = failures es"

text \<open>The effects of one call of \<open>SendEvent\<close>: what it adds to the trace.\<close>

definition effects_of ::
  "('c, 'p, 'e, 'b) env \<Rightarrow> 'p Event \<Rightarrow> ('c, 'p, 'e, 'b, 'z) world_scheme
     \<Rightarrow> ('p, 'e) effect list" where
  "effects_of en event w = drop (length (trace w)) (trace (snd (SendEvent en event w)))"

text \<open>
  The name the source computes from the sink \<open>s\<close> at the reading number \<open>t\<close> of the
  clock: \<open>e.Index + "-" + time.Now().Format(indexSuffixFormat)\<close>.
\<close>

definition target :: "('c, 'p, 'e, 'b) env \<Rightarrow> 'c ElasticSearch \<Rightarrow> nat \<Rightarrow> string" where
  "target en s t = Index s @ ''-'' @ Format (clock en t) indexSuffixFormat"

text \<open>
  The answers to the requests of a call that starts in world \<open>w\<close>, each with the state
  the backend is in afterwards: to the existence check, to the create request (sent
  after the existence check), and to the write and flush requests of
  \<open>SendEvent_write\<close>.
\<close>

definition exists_answer ::
  "('c, 'p, 'e, 'b) env \<Rightarrow> ('c, 'p, 'e, 'b, 'z) world_scheme \<Rightarrow> 'e + bool" where
  "exists_answer en w =
     fst (transport en (ELSClient (sink w)) (IndexExistsReq (target en (sink w) (ticks w)))
            (backend w))"

definition create_answer ::
  "('c, 'p, 'e, 'b) env \<Rightarrow> ('c, 'p, 'e, 'b, 'z) world_scheme \<Rightarrow> ('e + bool) \<times> 'b" where
  "create_answer en w =
     transport en (ELSClient (sink w))
       (CreateIndexReq (target en (sink w) (Suc (ticks w)))
          \<lparr>mapping_Settings = \<lparr>settings_Index =
            \<lparr>index_Shards = Shards (sink w), index_Replicas = Replicas (sink w)\<rparr>\<rparr>\<rparr>)
       (snd (transport en (ELSClient (sink w)) (IndexExistsReq (target en (sink w) (ticks w)))
          (backend w)))"

definition write_answer ::
  "('c, 'p, 'e, 'b) env \<Rightarrow> 'p Event \<Rightarrow> ('c, 'p, 'e, 'b, 'z) world_scheme
     \<Rightarrow> ('e + bool) \<times> 'b" where
  "write_answer en ev w =
     transport en (ELSClient (sink w))
       (IndexReq (target en (sink w) (ticks w)) (Type (sink w)) ev) (backend w)"

definition flush_answer ::
  "('c, 'p, 'e, 'b) env \<Rightarrow> 'p Event \<Rightarrow> ('c, 'p, 'e, 'b, 'z) world_scheme
     \<Rightarrow> ('e + bool) \<times> 'b" where
  "flush_answer en ev w =
     transport en (ELSClient (sink w))
       (FlushReq (target en (sink w) (Suc (ticks w)))) (snd (write_answer en ev w))"

text \<open>The step of \<open>SendEvent\<close> a request belongs to, and the line logged when it fails.\<close>

datatype step = ExistenceCheck | CreateTarget | Write | Flush

fun step_of :: "'p request \<Rightarrow> step" where
  "step_of (IndexExistsReq n) = ExistenceCheck"
| "step_of (CreateIndexReq n m) = CreateTarget"
| "step_of (IndexReq n ty ev) = Write"
| "step_of (FlushReq n) = Flush"

fun failure_message :: "step \<Rightarrow> string" where
  "failure_message ExistenceCheck = ''Failed to get index. Error:''"
| "failure_message CreateTarget = ''Failed to create index. Error:''"
| "failure_message Write = ''Failed to post data to els. Error:''"
| "failure_message Flush = ''Failed to flush data to els. Error:''"

text \<open>
  The result and the effects of a call as a function of the answers it gets: of
  \<open>SendEvent_write\<close> started at reading \<open>t\<close> of the clock, from the answers to the
  write and the flush request; and of \<open>SendEvent\<close>, from the answers to the existence
  check and the create request as well. An answer to a request that is not issued
  plays no role. Lemma \<open>SendEvent_script\<close> below shows that every call of the
  functions above runs as one of these.
\<close>

fun write_script ::
  "('c, 'p, 'e, 'b) env \<Rightarrow> 'c ElasticSearch \<Rightarrow> nat \<Rightarrow> 'p Event \<Rightarrow> 'e + bool \<Rightarrow> 'e + bool
     \<Rightarrow> 'e option \<times> ('p, 'e) effect list" where
  "write_script en s t ev (Inl err) a2 =
     (Some err,
      [Issued (IndexReq (target en s t) (Type s) ev) (Inl err),
       Logged Error (failure_message Write @ err_msg en err)])"
| "write_script en s t ev (Inr a) (Inl err) =
     (Some err,
      [Issued (IndexReq (target en s t) (Type s) ev) (Inr a),
       Issued (FlushReq (target en s (t + 1))) (Inl err),
       Logged Error (failure_message Flush @ err_msg en err)])"
| "write_script en s t ev (Inr a) (Inr a') =
     (None,
      [Issued (IndexReq (target en s t) (Type s) ev) (Inr a),
       Issued (FlushReq (target en s (t + 1))) (Inr a'),
       Logged Debug
         (''Event successfully sent to ElasticSearch index '' @ target en s (t + 2))])"

fun script ::
  "('c, 'p, 'e, 'b) env \<Rightarrow> 'c ElasticSearch \<Rightarrow> nat \<Rightarrow> 'p Event
     \<Rightarrow> 'e + bool \<Rightarrow> 'e + bool \<Rightarrow> 'e + bool \<Rightarrow> 'e + bool
     \<Rightarrow> 'e option \<times> ('p, 'e) effect list" where
  "script en s t event (Inl err) ac a1 a2 =
     (Some err,
      [Logged Debug (''>> Sending to ElasticSearch: '' @ fmt_event en event),
       Issued (IndexExistsReq (target en s t)) (Inl err),
       Logged Error (failure_message ExistenceCheck @ err_msg en err)])"
| "script en s t event (Inr True) ac a1 a2 =
     (fst (write_script en s (t + 1) (event\<lparr>Cluster := ClusterName s\<rparr>) a1 a2),
      [Logged Debug (''>> Sending to ElasticSearch: '' @ fmt_event en event),
       Issued (IndexExistsReq (target en s t)) (Inr True)] @
      snd (write_script en s (t + 1) (event\<lparr>Cluster := ClusterName s\<rparr>) a1 a2))"
| "script en s t event (Inr False) (Inl err) a1 a2 =
     (Some err,
      [Logged Debug (''>> Sending to ElasticSearch: '' @ fmt_event en event),
       Issued (IndexExistsReq (target en s t)) (Inr False),
       Issued (CreateIndexReq (target en s (t + 1))
         \<lparr>mapping_Settings = \<lparr>settings_Index =
            \<lparr>index_Shards = Shards s, index_Replicas = Replicas s\<rparr>\<rparr>\<rparr>) (Inl err),
       Logged Error (failure_message CreateTarget @ err_msg en err)])"
| "script en s t event (Inr False) (Inr a) a1 a2 =
     (fst (write_script en s (t + 2) (event\<lparr>Cluster := ClusterName s\<rparr>) a1 a2),
      [Logged Debug (''>> Sending to ElasticSearch: '' @ fmt_event en event),
       Issued (IndexExistsReq (target en s t)) (Inr False),
       Issued (CreateIndexReq (target en s (t + 1))
         \<lparr>mapping_Settings = \<lparr>settings_Index =
            \<lparr>index_Shards = Shards s, index_Replicas = Replicas s\<rparr>\<rparr>\<rparr>) (Inr a)] @
      snd (write_script en s (t + 2) (event\<lparr>Cluster := ClusterName s\<rparr>) a1 a2))"

text \<open>
  The date as the spec writes it, \<open>DD-MM-YYYY\<close>, to compare with what \<open>Format\<close>
  computes: two digits of the day, two of the month, four of the year, for a date
  whose year has at most four digits.
\<close>

definition digit :: "int \<Rightarrow> char" where
  "digit d = ''0123456789'' ! nat d"

definition DD_MM_YYYY :: "Time \<Rightarrow> string" where
  "DD_MM_YYYY t =
     [digit (Day t div 10), digit (Day t mod 10), CHR ''-'',
      digit (Month t div 10), digit (Month t mod 10), CHR ''-'',
      digit (Year t div 1000), digit (Year t div 100 mod 10),
      digit (Year t div 10 mod 10), digit (Year t mod 10)]"

definition calendar_date :: "Time \<Rightarrow> bool" where
  "calendar_date t =
     (0 \<le> Year t \<and> Year t \<le> 9999 \<and> 1 \<le> Month t \<and> Month t \<le> 12 \<and> 1 \<le> Day t \<and> Day t \<le> 31)"

text \<open>
  The error taxonomy as the spec writes it, to compare with what the source returns: an
  error is a transport error, or a transport error wrapped in the category of the step
  that failed (\<open>Wrapped ExistenceCheck u\<close> is the spec's ExistenceCheckError around
  \<open>u\<close>, and so on). The source has no such categories.
\<close>

datatype 'u spec_error = Transport 'u | Wrapped step 'u

fun spec_error_msg :: "string spec_error \<Rightarrow> string" where
  "spec_error_msg (Transport u) = u"
| "spec_error_msg (Wrapped s u) = failure_message s @ u"

text \<open>
  The caller of \<open>SendEvent\<close> holds the event in a variable of its own; the call passes
  the value of that variable.
\<close>

record ('c, 'p, 'e, 'b) caller_world = "('c, 'p, 'e, 'b) world" +
  caller_event :: "'p Event"

subsection \<open>A store to run the notifier against\<close>

text \<open>
  A backend that keeps the names of its indices: the existence check looks the name
  up, the create request adds it, the other requests succeed; \<open>fails\<close> makes chosen
  requests fail with a transport error.
\<close>

definition store_transport ::
  "('p request \<Rightarrow> 'e option) \<Rightarrow> unit \<Rightarrow> 'p request \<Rightarrow> string list
     \<Rightarrow> ('e + bool) \<times> string list" where
  "store_transport fails c req b =
     (case fails req of
        Some err \<Rightarrow> (Inl err, b)
      | None \<Rightarrow>
          (case req of
             IndexExistsReq n \<Rightarrow> (Inr (n \<in> set b), b)
           | CreateIndexReq n m \<Rightarrow> (Inr True, n # b)
           | IndexReq n ty ev \<Rightarrow> (Inr True, b)
           | FlushReq n \<Rightarrow> (Inr True, b)))"

definition store_env ::
  "(nat \<Rightarrow> Time) \<Rightarrow> ('p request \<Rightarrow> 'e option) \<Rightarrow> ('e \<Rightarrow> string)
     \<Rightarrow> (unit, 'p, 'e, string list) env" where
  "store_env clk fails msg =
     \<lparr>clock = clk, transport = store_transport fails, err_msg = msg, fmt_event = Cluster\<rparr>"

definition k8s_sink :: "unit ElasticSearch" where
  "k8s_sink =
     \<lparr>ELSClient = (), Server = [], Index = ''k8sevents'', Shards = 3, Replicas = 1,
      Type = ''botkube-event'', ClusterName = ''prod''\<rparr>"

definition store_world :: "string list \<Rightarrow> (unit, string, string, string list) world" where
  "store_world b = \<lparr>sink = k8s_sink, ticks = 0, backend = b, trace = []\<rparr>"

definition spec_error_world ::
  "string list \<Rightarrow> (unit, string, string spec_error, string list) world" where
  "spec_error_world b = \<lparr>sink = k8s_sink, ticks = 0, backend = b, trace = []\<rparr>"

definition caller_of ::
  "string Event \<Rightarrow> string list \<Rightarrow> (unit, string, string, string list) caller_world" where
  "caller_of ev b =
     \<lparr>sink = k8s_sink, ticks = 0, backend = b, trace = [], caller_event = ev\<rparr>"

definition pod_event :: "string Event" where
  "pod_event = \<lparr>Cluster = ''dev'', Fields = ''pod crashed''\<rparr>"

definition march_7 :: "nat \<Rightarrow> Time" where
  "march_7 k = \<lparr>Year = 2024, Month = 3, Day = 7\<rparr>"

definition new_year :: "nat \<Rightarrow> Time" where
  "new_year k = (if k = 0 then \<lparr>Year = 2024, Month = 12, Day = 31\<rparr>
                 else \<lparr>Year = 2025, Month = 1, Day = 1\<rparr>)"

definition never :: "'p request \<Rightarrow> 'e option" where
  "never req = None"

definition at_step :: "step \<Rightarrow> 'e \<Rightarrow> 'p request \<Rightarrow> 'e option" where
  "at_step s err req = (if step_of req = s then Some err else None)"

text \<open>
  Libraries that never fail and keep what they are given: the session is a name, the
  signing HTTP client is the signer with its service and region, and the Elasticsearch
  client is the list of its options. Two configurations, one for each way to
  authenticate.
\<close>

definition recording_libs ::
  "(string, string Signer \<times> string \<times> string,
    (string Signer \<times> string \<times> string) ClientOptionFunc list, string) libraries" where
  "recording_libs =
     \<lparr>session_NewSession = Inr ''ambient'',
      aws_signing_client_New = (\<lambda>signer client service region. Inr (signer, service, region)),
      elastic_NewClient = (\<lambda>options. Inr options)\<rparr>"

definition basic_config :: Config where
  "basic_config =
     \<lparr>ElasticSearch_AWSSigning_Enabled = False,
      ElasticSearch_AWSSigning_AWSRegion = ''us-east-1'',
      ElasticSearch_AWSSigning_RoleArn = [],
      ElasticSearch_Server = ''http://es:9200'',
      ElasticSearch_Username = ''elastic'',
      ElasticSearch_Password = ''changeme'',
      ElasticSearch_Index_Name = ''k8sevents'',
      ElasticSearch_Index_Type = ''botkube-event'',
      ElasticSearch_Index_Shards = 3,
      ElasticSearch_Index_Replicas = 1,
      Settings_ClusterName = ''prod''\<rparr>"

definition signed_config :: Config where
  "signed_config = basic_config\<lparr>ElasticSearch_AWSSigning_Enabled := True\<rparr>"

section \<open>Properties\<close>

subsection \<open>Every call runs as a script of its answers\<close>

lemma index_name_target:
  "index_name en w = (target en (sink w) (ticks w), w\<lparr>ticks := Suc (ticks w)\<rparr>)"
  by (simp add: index_name_def time_Now_def target_def)

lemma SendEvent_write_script:
  "fst (SendEvent_write en ev w) =
     fst (write_script en (sink w) (ticks w) ev
            (fst (write_answer en ev w)) (fst (flush_answer en ev w)))"
  "trace (snd (SendEvent_write en ev w)) =
     trace w @ snd (write_script en (sink w) (ticks w) ev
            (fst (write_answer en ev w)) (fst (flush_answer en ev w)))"
  "sink (snd (SendEvent_write en ev w)) = sink w"
  "world.more (snd (SendEvent_write en ev w)) = world.more w"
proof -
  obtain r1 b1 where t1: "write_answer en ev w = (r1, b1)"
    by (cases "write_answer en ev w")
  obtain r2 b2 where t2: "flush_answer en ev w = (r2, b2)"
    by (cases "flush_answer en ev w")
  have u1: "transport en (ELSClient (sink w))
       (IndexReq (target en (sink w) (ticks w)) (Type (sink w)) ev) (backend w) = (r1, b1)"
    using t1 by (simp add: write_answer_def)
  have u2: "transport en (ELSClient (sink w))
       (FlushReq (target en (sink w) (Suc (ticks w)))) b1 = (r2, b2)"
    using t1 t2 by (simp add: flush_answer_def)
  have "fst (SendEvent_write en ev w) = fst (write_script en (sink w) (ticks w) ev r1 r2) \<and>
     trace (snd (SendEvent_write en ev w)) =
       trace w @ snd (write_script en (sink w) (ticks w) ev r1 r2) \<and>
     sink (snd (SendEvent_write en ev w)) = sink w \<and>
     world.more (snd (SendEvent_write en ev w)) = world.more w"
    using u1 u2
    by (cases r1; cases r2)
       (simp_all add: SendEvent_write_def index_name_def time_Now_def Do_def log_Error_def
          log_Debug_def target_def)
  then show
    "fst (SendEvent_write en ev w) =
     fst (write_script en (sink w) (ticks w) ev
            (fst (write_answer en ev w)) (fst (flush_answer en ev w)))"
    "trace (snd (SendEvent_write en ev w)) =
     trace w @ snd (write_script en (sink w) (ticks w) ev
            (fst (write_answer en ev w)) (fst (flush_answer en ev w)))"
    "sink (snd (SendEvent_write en ev w)) = sink w"
    "world.more (snd (SendEvent_write en ev w)) = world.more w"
    by (simp_all add: t1 t2)
qed

lemma SendEvent_script:
  "\<exists>ac a1 a2.
     fst (SendEvent en event w) =
       fst (script en (sink w) (ticks w) event (exists_answer en w) ac a1 a2) \<and>
     effects_of en event w =
       snd (script en (sink w) (ticks w) event (exists_answer en w) ac a1 a2) \<and>
     sink (snd (SendEvent en event w)) = sink w \<and>
       world.more (snd (SendEvent en event w)) = world.more w"
proof -
  obtain r0 b0 where t0:
    "transport en (ELSClient (sink w)) (IndexExistsReq (target en (sink w) (ticks w)))
       (backend w) = (r0, b0)"
    by (cases "transport en (ELSClient (sink w)) (IndexExistsReq (target en (sink w) (ticks w)))
       (backend w)")
  obtain rc bc where tc: "create_answer en w = (rc, bc)"
    by (cases "create_answer en w")
  have uc: "transport en (ELSClient (sink w))
       (CreateIndexReq (target en (sink w) (Suc (ticks w)))
          \<lparr>mapping_Settings = \<lparr>settings_Index =
            \<lparr>index_Shards = Shards (sink w), index_Replicas = Replicas (sink w)\<rparr>\<rparr>\<rparr>) b0 = (rc, bc)"
    using t0 tc by (simp add: create_answer_def)
  have e0: "exists_answer en w = r0"
    using t0 by (simp add: exists_answer_def)
  show ?thesis
  proof (cases r0)
    case (Inl err)
    with t0 have
      "fst (SendEvent en event w) = fst (script en (sink w) (ticks w) event r0 rc rc rc) \<and>
       effects_of en event w = snd (script en (sink w) (ticks w) event r0 rc rc rc) \<and>
       sink (snd (SendEvent en event w)) = sink w \<and>
       world.more (snd (SendEvent en event w)) = world.more w"
      by (simp add: effects_of_def SendEvent_def index_name_target Do_def Let_def
            log_Error_def log_Debug_def)
    then show ?thesis unfolding e0 by blast
  next
    case (Inr ex)
    show ?thesis
    proof (cases ex)
      case True
      with Inr t0 have
        "\<exists>a1 a2. fst (SendEvent en event w) = fst (script en (sink w) (ticks w) event r0 rc a1 a2) \<and>
         effects_of en event w = snd (script en (sink w) (ticks w) event r0 rc a1 a2) \<and>
         sink (snd (SendEvent en event w)) = sink w \<and>
       world.more (snd (SendEvent en event w)) = world.more w"
        by (simp add: effects_of_def SendEvent_def index_name_target Do_def Let_def
              log_Error_def log_Debug_def SendEvent_write_script) blast
      then show ?thesis unfolding e0 by blast
    next
      case False
      show ?thesis
      proof (cases rc)
        case (Inl err)
        with False Inr t0 uc have
          "fst (SendEvent en event w) = fst (script en (sink w) (ticks w) event r0 rc rc rc) \<and>
           effects_of en event w = snd (script en (sink w) (ticks w) event r0 rc rc rc) \<and>
           sink (snd (SendEvent en event w)) = sink w \<and>
       world.more (snd (SendEvent en event w)) = world.more w"
          by (simp add: effects_of_def SendEvent_def index_name_target Do_def Let_def
                log_Error_def log_Debug_def)
        then show ?thesis unfolding e0 by blast
      next
        case (Inr a)
        with False \<open>r0 = Inr ex\<close> t0 uc have
          "\<exists>a1 a2. fst (SendEvent en event w) = fst (script en (sink w) (ticks w) event r0 rc a1 a2) \<and>
           effects_of en event w = snd (script en (sink w) (ticks w) event r0 rc a1 a2) \<and>
           sink (snd (SendEvent en event w)) = sink w \<and>
       world.more (snd (SendEvent en event w)) = world.more w"
          by (simp add: effects_of_def SendEvent_def index_name_target Do_def Let_def
                log_Error_def log_Debug_def SendEvent_write_script) blast
        then show ?thesis unfolding e0 by blast
      qed
    qed
  qed
qed

subsection \<open>Lists of effects, dates and concrete runs\<close>

lemma sum_bool_cases [case_names failed present absent]:
  fixes x :: "'e + bool"
  obtains err where "x = Inl err" | "x = Inr True" | "x = Inr False"
  by (cases x) auto

lemma issued_append [simp]: "issued (xs @ ys) = issued xs @ issued ys"
  by (induction xs rule: issued.induct) simp_all

lemma failures_append [simp]: "failures (xs @ ys) = failures xs @ failures ys"
  by (induction xs rule: failures.induct) simp_all

lemma Format_layout:
  "Format t indexSuffixFormat =
     appendInt [] (Day t) 2 @ ''-'' @ appendInt [] (Month t) 2 @ ''-'' @ appendInt [] (Year t) 4"
  by (simp add: indexSuffixFormat_def)

lemma digits_numeral:
  "digits (numeral n) =
     (if (numeral n :: nat) < 10 then [''0123456789'' ! numeral n]
      else digits (numeral n div 10) @ [''0123456789'' ! (numeral n mod 10)])"
  by (rule digits.simps)

lemma digits_small [simp]: "digits 0 = ''0''" "digits 1 = ''1''" "digits (Suc 0) = ''1''"
  by (simp_all add: digits.simps)

lemma upt_small [simp]:
  "[0..<Suc 0] = [0]" "[0..<Suc (Suc 0)] = [0, 1]" "[0..<Suc (Suc (Suc 0))] = [0, 1, 2]"
  "[0..<Suc (Suc (Suc (Suc 0)))] = [0, 1, 2, 3]"
  by (simp_all add: upt_rec)

lemmas store_eval =
  store_env_def store_world_def spec_error_world_def caller_of_def store_transport_def never_def
  at_step_def k8s_sink_def pod_event_def march_7_def new_year_def target_def Format_layout
  appendInt_def digits_numeral

lemmas SendEvent_eval =
  effects_of_def SendEvent_def SendEvent_write_def index_name_target Do_def log_Debug_def
  log_Error_def Let_def

lemma SendEvent_targets:
  "map target_of (issued (effects_of en event w)) =
     map (\<lambda>i. target en (sink w) (ticks w + i)) [0..<length (issued (effects_of en event w))]"
proof -
  from SendEvent_script [of en event w] obtain ac a1 a2 where
    e: "effects_of en event w =
          snd (script en (sink w) (ticks w) event (exists_answer en w) ac a1 a2)"
    by blast
  show ?thesis
    unfolding e
    by (cases "exists_answer en w" rule: sum_bool_cases; cases ac; cases a1; cases a2) simp_all
qed

lemma SendEvent_frame_eq:
  "snd (SendEvent en event w) =
     w\<lparr>ticks := ticks (snd (SendEvent en event w)),
       backend := backend (snd (SendEvent en event w)),
       trace := trace (snd (SendEvent en event w))\<rparr>"
proof -
  from SendEvent_script [of en event w]
  have "sink (snd (SendEvent en event w)) = sink w"
       "world.more (snd (SendEvent en event w)) = world.more w"
    by blast+
  then show ?thesis by (intro world.equality) simp_all
qed

lemma digits_lt10: "u < 10 \<Longrightarrow> digits u = [''0123456789'' ! u]"
  by (simp add: digits.simps)

lemma digits_ge10: "10 \<le> u \<Longrightarrow> digits u = digits (u div 10) @ [''0123456789'' ! (u mod 10)]"
  by (subst digits.simps) simp

lemma replicate_0s [simp]:
  "replicate 2 c = [c, c]" "replicate 3 c = [c, c, c]"
  by (simp_all add: numeral_2_eq_2 numeral_3_eq_3)

lemma digits_lt100:
  "u < 100 \<Longrightarrow> replicate (2 - length (digits u)) (CHR ''0'') @ digits u =
     [''0123456789'' ! (u div 10), ''0123456789'' ! (u mod 10)]"
proof (cases "u < 10")
  case True
  then show ?thesis by (simp add: digits_lt10)
next
  case False
  assume "u < 100"
  with False have "u div 10 < 10" by simp
  with False show ?thesis by (simp add: digits_ge10 digits_lt10)
qed

lemma digits_lt10000:
  assumes "u < 10000"
  shows "replicate (4 - length (digits u)) (CHR ''0'') @ digits u =
     [''0123456789'' ! (u div 1000), ''0123456789'' ! (u div 100 mod 10),
      ''0123456789'' ! (u div 10 mod 10), ''0123456789'' ! (u mod 10)]"
proof -
  consider "u < 10" | "10 \<le> u" "u < 100" | "100 \<le> u" "u < 1000" | "1000 \<le> u"
    by linarith
  then show ?thesis
  proof cases
    case 1
    then show ?thesis by (simp add: digits_lt10)
  next
    case 2
    then have "u div 10 < 10" by simp
    with 2 show ?thesis by (simp add: digits_ge10 digits_lt10)
  next
    case 3
    then have a: "10 \<le> u" "10 \<le> u div 10" "u div 10 div 10 < 10" "u div 10 div 10 = u div 100" "u div 1000 = 0"
      by (simp_all add: div_mult2_eq[symmetric] less_eq_div_iff_mult_less_eq)
    then show ?thesis by (simp add: digits_ge10[of u] digits_ge10[of "u div 10"] digits_lt10)
  next
    case 4
    with assms have a: "10 \<le> u" "10 \<le> u div 10" "10 \<le> u div 10 div 10" "u div 10 div 10 div 10 < 10"
       "u div 10 div 10 = u div 100" "u div 10 div 10 div 10 = u div 1000"
      by (simp_all add: div_mult2_eq[symmetric] less_eq_div_iff_mult_less_eq)
    then show ?thesis
      by (simp add: digits_ge10[of u] digits_ge10[of "u div 10"] digits_ge10[of "u div 100"] digits_lt10)
  qed
qed

lemma appendInt_2:
  assumes "0 \<le> x" "x < 100"
  shows "appendInt [] x 2 = [digit (x div 10), digit (x mod 10)]"
proof -
  from assms have "nat x < 100" by simp
  from digits_lt100 [OF this] assms show ?thesis
    by (simp add: appendInt_def digit_def nat_div_distrib nat_mod_distrib)
qed

lemma appendInt_4:
  assumes "0 \<le> x" "x < 10000"
  shows "appendInt [] x 4 = [digit (x div 1000), digit (x div 100 mod 10),
      digit (x div 10 mod 10), digit (x mod 10)]"
proof -
  from assms have "nat x < 10000" by simp
  from digits_lt10000 [OF this] assms show ?thesis
    by (simp add: appendInt_def digit_def nat_div_distrib nat_mod_distrib)
qed

lemma Format_calendar_date:
  "calendar_date t \<Longrightarrow> Format t indexSuffixFormat = DD_MM_YYYY t"
  by (simp add: calendar_date_def Format_layout DD_MM_YYYY_def appendInt_2 appendInt_4)

lemma store_world_simps [simp]:
  "sink (store_world b) = k8s_sink" "ticks (store_world b) = 0"
  "backend (store_world b) = b" "trace (store_world b) = []"
  by (simp_all add: store_world_def)

text \<open>
  Runs against the store: a fresh target, an existing target, a call across midnight
  of the new year, and a failure at each of three steps.
\<close>

lemma run_fresh:
  "SendEvent (store_env march_7 never id) pod_event (store_world []) =
     (None,
      \<lparr>sink = k8s_sink, ticks = 5, backend = [''k8sevents-07-03-2024''],
       trace =
         [Logged Debug ''>> Sending to ElasticSearch: dev'',
          Issued (IndexExistsReq ''k8sevents-07-03-2024'') (Inr False),
          Issued (CreateIndexReq ''k8sevents-07-03-2024''
            \<lparr>mapping_Settings = \<lparr>settings_Index =
               \<lparr>index_Shards = 3, index_Replicas = 1\<rparr>\<rparr>\<rparr>) (Inr True),
          Issued (IndexReq ''k8sevents-07-03-2024'' ''botkube-event''
            \<lparr>Cluster = ''prod'', Fields = ''pod crashed''\<rparr>) (Inr True),
          Issued (FlushReq ''k8sevents-07-03-2024'') (Inr True),
          Logged Debug
            ''Event successfully sent to ElasticSearch index k8sevents-07-03-2024'']\<rparr>)"
  by (simp add: SendEvent_eval store_eval)


lemma run_rollover:
  "map target_of (issued (effects_of (store_env new_year never id) pod_event (store_world []))) =
     [''k8sevents-31-12-2024'', ''k8sevents-01-01-2025'', ''k8sevents-01-01-2025'',
      ''k8sevents-01-01-2025'']"
  by (simp add: SendEvent_eval store_eval)

lemma run_check_fails:
  "SendEvent (store_env march_7 (at_step ExistenceCheck ''timeout'') id) pod_event (store_world []) =
     (Some ''timeout'',
      \<lparr>sink = k8s_sink, ticks = 1, backend = [],
       trace =
         [Logged Debug ''>> Sending to ElasticSearch: dev'',
          Issued (IndexExistsReq ''k8sevents-07-03-2024'') (Inl ''timeout''),
          Logged Error ''Failed to get index. Error:timeout'']\<rparr>)"
  by (simp add: SendEvent_eval store_eval)

lemma run_write_fails:
  "SendEvent (store_env march_7 (at_step Write ''timeout'') id) pod_event (store_world []) =
     (Some ''timeout'',
      \<lparr>sink = k8s_sink, ticks = 3, backend = [''k8sevents-07-03-2024''],
       trace =
         [Logged Debug ''>> Sending to ElasticSearch: dev'',
          Issued (IndexExistsReq ''k8sevents-07-03-2024'') (Inr False),
          Issued (CreateIndexReq ''k8sevents-07-03-2024''
            \<lparr>mapping_Settings = \<lparr>settings_Index =
               \<lparr>index_Shards = 3, index_Replicas = 1\<rparr>\<rparr>\<rparr>) (Inr True),
          Issued (IndexReq ''k8sevents-07-03-2024'' ''botkube-event''
            \<lparr>Cluster = ''prod'', Fields = ''pod crashed''\<rparr>) (Inl ''timeout''),
          Logged Error ''Failed to post data to els. Error:timeout'']\<rparr>)"
  by (simp add: SendEvent_eval store_eval)

lemma run_flush_fails:
  "SendEvent (store_env march_7 (at_step Flush ''timeout'') id) pod_event
     (store_world [''k8sevents-07-03-2024'']) =
     (Some ''timeout'',
      \<lparr>sink = k8s_sink, ticks = 3, backend = [''k8sevents-07-03-2024''],
       trace =
         [Logged Debug ''>> Sending to ElasticSearch: dev'',
          Issued (IndexExistsReq ''k8sevents-07-03-2024'') (Inr True),
          Issued (IndexReq ''k8sevents-07-03-2024'' ''botkube-event''
            \<lparr>Cluster = ''prod'', Fields = ''pod crashed''\<rparr>) (Inr True),
          Issued (FlushReq ''k8sevents-07-03-2024'') (Inl ''timeout''),
          Logged Error ''Failed to flush data to els. Error:timeout'']\<rparr>)"
  by (simp add: SendEvent_eval store_eval)

lemma run_typed:
  "fst (SendEvent (store_env march_7 (at_step ExistenceCheck (Transport ''connection refused''))
          spec_error_msg) pod_event (spec_error_world [])) = Some (Transport ''connection refused'')"
  "fst (SendEvent (store_env march_7 (at_step Write (Transport ''connection refused''))
          spec_error_msg) pod_event (spec_error_world [])) = Some (Transport ''connection refused'')"
  by (simp_all add: SendEvent_eval store_eval)

lemma run_caller:
  "snd (SendEvent (store_env march_7 never id) pod_event (caller_of pod_event [])) =
     \<lparr>sink = k8s_sink, ticks = 5, backend = [''k8sevents-07-03-2024''],
      trace =
        [Logged Debug ''>> Sending to ElasticSearch: dev'',
         Issued (IndexExistsReq ''k8sevents-07-03-2024'') (Inr False),
         Issued (CreateIndexReq ''k8sevents-07-03-2024''
           \<lparr>mapping_Settings = \<lparr>settings_Index =
              \<lparr>index_Shards = 3, index_Replicas = 1\<rparr>\<rparr>\<rparr>) (Inr True),
         Issued (IndexReq ''k8sevents-07-03-2024'' ''botkube-event''
           \<lparr>Cluster = ''prod'', Fields = ''pod crashed''\<rparr>) (Inr True),
         Issued (FlushReq ''k8sevents-07-03-2024'') (Inr True),
         Logged Debug
           ''Event successfully sent to ElasticSearch index k8sevents-07-03-2024''],
      caller_event = pod_event\<rparr>"
  by (simp add: SendEvent_eval store_eval)

lemma effects_fresh:
  "effects_of (store_env march_7 never id) pod_event (store_world []) =
     [Logged Debug ''>> Sending to ElasticSearch: dev'',
      Issued (IndexExistsReq ''k8sevents-07-03-2024'') (Inr False),
      Issued (CreateIndexReq ''k8sevents-07-03-2024''
        \<lparr>mapping_Settings = \<lparr>settings_Index =
           \<lparr>index_Shards = 3, index_Replicas = 1\<rparr>\<rparr>\<rparr>) (Inr True),
      Issued (IndexReq ''k8sevents-07-03-2024'' ''botkube-event''
        \<lparr>Cluster = ''prod'', Fields = ''pod crashed''\<rparr>) (Inr True),
      Issued (FlushReq ''k8sevents-07-03-2024'') (Inr True),
      Logged Debug ''Event successfully sent to ElasticSearch index k8sevents-07-03-2024'']"
  by (simp add: effects_of_def run_fresh)




subsection \<open>Creating the target\<close>





subsection \<open>The name of the target and the document\<close>

text \<open>
  C2. The requests of a call address, in the order they are issued, the names computed
  from the successive readings of the clock: the \<open>i\<close>-th request of the call addresses
  the base name of the sink, a dash, and the date of the \<open>i\<close>-th reading after the
  call started, formatted with \<open>indexSuffixFormat\<close>; so the name is computed anew for
  each request. For a calendar date with a year from 0 to 9999 that format is
  \<open>DD-MM-YYYY\<close>.
\<close>

theorem SendEvent_target_names:
  "map target_of (issued (effects_of en event w)) =
     map (\<lambda>i. Index (sink w) @ ''-'' @ Format (clock en (ticks w + i)) indexSuffixFormat)
       [0..<length (issued (effects_of en event w))] \<and>
   (calendar_date t \<longrightarrow> Format t indexSuffixFormat = DD_MM_YYYY t)"
  using SendEvent_targets [of en event w] Format_calendar_date [of t]
  by (simp add: target_def)

theorem SendEvent_target_names_witness:
  "map target_of
     (issued (effects_of (store_env new_year never id) pod_event (store_world []))) =
     [''k8sevents-31-12-2024'', ''k8sevents-01-01-2025'', ''k8sevents-01-01-2025'',
      ''k8sevents-01-01-2025''] \<and>
   calendar_date (march_7 0) \<and>
   ''k8sevents'' @ ''-'' @ Format (march_7 0) indexSuffixFormat = ''k8sevents-07-03-2024''"
proof -
  have date: "calendar_date (march_7 0)"
    by (simp add: calendar_date_def march_7_def)
  from SendEvent_target_names
         [of "store_env new_year never id" pod_event "store_world []" "march_7 0"] date
  have "Format (march_7 0) indexSuffixFormat = DD_MM_YYYY (march_7 0)"
    by blast
  then have "''k8sevents'' @ ''-'' @ Format (march_7 0) indexSuffixFormat =
               ''k8sevents-07-03-2024''"
    by (simp add: DD_MM_YYYY_def digit_def march_7_def)
  with run_rollover date show ?thesis
    by blast
qed

text \<open>
  C3. Every write request of a call carries as its document the event given to the
  call with the cluster field replaced by the cluster name of the sink, whatever the
  cluster field of the event was.
\<close>

theorem SendEvent_document_cluster:
  "\<forall>n ty ev. IndexReq n ty ev \<in> set (issued (effects_of en event w)) \<longrightarrow>
     ev = event\<lparr>Cluster := ClusterName (sink w)\<rparr> \<and> Cluster ev = ClusterName (sink w)"
proof -
  from SendEvent_script [of en event w] obtain ac a1 a2 where
    e: "effects_of en event w =
          snd (script en (sink w) (ticks w) event (exists_answer en w) ac a1 a2)"
    by blast
  show ?thesis
    unfolding e
    by (cases "exists_answer en w" rule: sum_bool_cases; cases ac; cases a1; cases a2) simp_all
qed

theorem SendEvent_document_cluster_witness:
  "IndexReq ''k8sevents-07-03-2024'' ''botkube-event''
     \<lparr>Cluster = ''prod'', Fields = ''pod crashed''\<rparr>
     \<in> set (issued (effects_of (store_env march_7 never id) pod_event (store_world []))) \<and>
   Cluster pod_event = ''dev'' \<and>
   ClusterName (sink (store_world [])) = ''prod'' \<and>
   \<lparr>Cluster = ''prod'', Fields = ''pod crashed''\<rparr> =
     pod_event\<lparr>Cluster := ClusterName (sink (store_world []))\<rparr>"
proof -
  have written:
    "IndexReq ''k8sevents-07-03-2024'' ''botkube-event''
       \<lparr>Cluster = ''prod'', Fields = ''pod crashed''\<rparr>
       \<in> set (issued (effects_of (store_env march_7 never id) pod_event (store_world [])))"
    by (simp add: effects_fresh)
  from SendEvent_document_cluster [rule_format, OF written] written
  show ?thesis
    by (simp add: pod_event_def k8s_sink_def)
qed

subsection \<open>Failures\<close>

text \<open>
  C4. When the existence check of a call fails, the call returns that error, and the
  existence check is the only request it issues: no create, write or flush request.
\<close>

theorem SendEvent_existence_check_fails:
  assumes "exists_answer en w = Inl err"
  shows "fst (SendEvent en event w) = Some err \<and>
         issued (effects_of en event w) = [IndexExistsReq (target en (sink w) (ticks w))]"
proof -
  from SendEvent_script [of en event w] obtain ac a1 a2 where
    "fst (SendEvent en event w) =
       fst (script en (sink w) (ticks w) event (exists_answer en w) ac a1 a2)"
    "effects_of en event w =
          snd (script en (sink w) (ticks w) event (exists_answer en w) ac a1 a2)"
    by blast
  with assms show ?thesis by simp
qed

theorem SendEvent_existence_check_fails_witness:
  "exists_answer (store_env march_7 (at_step ExistenceCheck ''timeout'') id) (store_world []) =
     Inl ''timeout'' \<and>
   fst (SendEvent (store_env march_7 (at_step ExistenceCheck ''timeout'') id) pod_event
     (store_world [])) = Some ''timeout'' \<and>
   issued (effects_of (store_env march_7 (at_step ExistenceCheck ''timeout'') id) pod_event
     (store_world [])) = [IndexExistsReq ''k8sevents-07-03-2024'']"
proof -
  have fails:
    "exists_answer (store_env march_7 (at_step ExistenceCheck ''timeout'') id) (store_world []) =
       Inl ''timeout''"
    by (simp add: exists_answer_def store_eval)
  have name:
    "target (store_env march_7 (at_step ExistenceCheck ''timeout'') id
               :: (unit, string, string, string list) env)
       (sink (store_world [])) (ticks (store_world [])) = ''k8sevents-07-03-2024''"
    by (simp add: store_eval)
  from SendEvent_existence_check_fails [OF fails, of pod_event] fails name
  show ?thesis by simp
qed

text \<open>
  C5. When the write request of a call is answered with an error, the call returns
  that error and issues no flush request.
\<close>

theorem SendEvent_write_fails:
  assumes "Issued (IndexReq n ty ev) (Inl err) \<in> set (effects_of en event w)"
  shows "fst (SendEvent en event w) = Some err \<and>
         filter is_flush (issued (effects_of en event w)) = []"
proof -
  from SendEvent_script [of en event w] obtain ac a1 a2 where
    r: "fst (SendEvent en event w) =
       fst (script en (sink w) (ticks w) event (exists_answer en w) ac a1 a2)" and
    e: "effects_of en event w =
          snd (script en (sink w) (ticks w) event (exists_answer en w) ac a1 a2)"
    by blast
  show ?thesis
    using assms unfolding r e
    by (cases "exists_answer en w" rule: sum_bool_cases; cases ac; cases a1; cases a2) simp_all
qed

theorem SendEvent_write_fails_witness:
  "Issued (IndexReq ''k8sevents-07-03-2024'' ''botkube-event''
            \<lparr>Cluster = ''prod'', Fields = ''pod crashed''\<rparr>) (Inl ''timeout'')
     \<in> set (effects_of (store_env march_7 (at_step Write ''timeout'') id) pod_event
              (store_world [])) \<and>
   fst (SendEvent (store_env march_7 (at_step Write ''timeout'') id) pod_event
     (store_world [])) = Some ''timeout'' \<and>
   filter is_flush
     (issued (effects_of (store_env march_7 (at_step Write ''timeout'') id) pod_event
        (store_world []))) = []"
proof -
  have failed:
    "Issued (IndexReq ''k8sevents-07-03-2024'' ''botkube-event''
              \<lparr>Cluster = ''prod'', Fields = ''pod crashed''\<rparr>) (Inl ''timeout'')
       \<in> set (effects_of (store_env march_7 (at_step Write ''timeout'') id) pod_event
                (store_world []))"
    by (simp add: effects_of_def run_write_fails)
  from SendEvent_write_fails [OF failed] failed
  show ?thesis by simp
qed

text \<open>
  C7, as amended. The error a call returns is the very error that the client returned
  for the last request of the call, not wrapped in anything: the effects of the call
  end with that failed request and with the line logged for its step, which holds the
  message of the error, and no request before it failed. A call that returns no error
  had no failed request. No step is tried twice.
\<close>

theorem SendEvent_returns_transport_error:
  "(fst (SendEvent en event w) = Some err \<longrightarrow>
      (\<exists>pre r. effects_of en event w =
          pre @ [Issued r (Inl err),
                 Logged Error (failure_message (step_of r) @ err_msg en err)] \<and>
        failures pre = [])) \<and>
   (fst (SendEvent en event w) = None \<longrightarrow> failures (effects_of en event w) = []) \<and>
   distinct (map step_of (issued (effects_of en event w)))"
proof -
  from SendEvent_script [of en event w] obtain ac a1 a2 where
    r: "fst (SendEvent en event w) =
       fst (script en (sink w) (ticks w) event (exists_answer en w) ac a1 a2)" and
    e: "effects_of en event w =
          snd (script en (sink w) (ticks w) event (exists_answer en w) ac a1 a2)"
    by blast
  show ?thesis
    unfolding r e
    by (cases "exists_answer en w" rule: sum_bool_cases; cases ac; cases a1; cases a2)
       (simp_all add: Cons_eq_append_conv)
qed

theorem SendEvent_returns_transport_error_witness:
  "fst (SendEvent (store_env march_7 (at_step Flush ''timeout'') id) pod_event
     (store_world [''k8sevents-07-03-2024''])) = Some ''timeout'' \<and>
   (\<exists>pre r.
      effects_of (store_env march_7 (at_step Flush ''timeout'') id) pod_event
        (store_world [''k8sevents-07-03-2024'']) =
        pre @ [Issued r (Inl ''timeout''),
               Logged Error (failure_message (step_of r) @ ''timeout'')] \<and>
      failures pre = []) \<and>
   last (effects_of (store_env march_7 (at_step Flush ''timeout'') id) pod_event
        (store_world [''k8sevents-07-03-2024''])) =
     Logged Error ''Failed to flush data to els. Error:timeout''"
proof -
  have returned:
    "fst (SendEvent (store_env march_7 (at_step Flush ''timeout'') id) pod_event
       (store_world [''k8sevents-07-03-2024''])) = Some ''timeout''"
    by (simp add: run_flush_fails)
  have message:
    "err_msg (store_env march_7 (at_step Flush ''timeout'') id
                :: (unit, string, string, string list) env) ''timeout'' = ''timeout''"
    by (simp add: store_env_def)
  have logged:
    "last (effects_of (store_env march_7 (at_step Flush ''timeout'') id) pod_event
        (store_world [''k8sevents-07-03-2024''])) =
     Logged Error ''Failed to flush data to els. Error:timeout''"
    by (simp add: effects_of_def run_flush_fails)
  from SendEvent_returns_transport_error
         [of "store_env march_7 (at_step Flush ''timeout'') id" pod_event
             "store_world [''k8sevents-07-03-2024'']" "''timeout''"]
       returned message logged
  show ?thesis by simp
qed

text \<open>
  C7, as the spec states it, fails: when the existence check fails with a transport
  error, the call returns that transport error itself and not an existence-check error
  around it; and a call whose write request fails with the same transport error
  returns the same value, so that the value returned does not tell the step that failed.
\<close>

theorem SendEvent_typed_category_counterexample:
  "fst (SendEvent
          (store_env march_7 (at_step ExistenceCheck (Transport ''connection refused''))
             spec_error_msg) pod_event (spec_error_world [])) =
     Some (Transport ''connection refused'') \<and>
   fst (SendEvent
          (store_env march_7 (at_step ExistenceCheck (Transport ''connection refused''))
             spec_error_msg) pod_event (spec_error_world [])) \<noteq>
     Some (Wrapped ExistenceCheck ''connection refused'') \<and>
   fst (SendEvent
          (store_env march_7 (at_step Write (Transport ''connection refused''))
             spec_error_msg) pod_event (spec_error_world [])) =
   fst (SendEvent
          (store_env march_7 (at_step ExistenceCheck (Transport ''connection refused''))
             spec_error_msg) pod_event (spec_error_world []))"
  by (simp add: run_typed)

subsection \<open>The constructor\<close>

text \<open>
  C8. A sink that the constructor returns holds the client that \<open>elastic.NewClient\<close>
  made from these options: with signing enabled, the server URL, the scheme https, the
  signing HTTP client (made from the signer of the credentials of the session: of the
  assumed role when a role is configured, of the instance otherwise), sniffing off,
  health checks off and gzip off; with signing disabled, the server URL, the user name
  and password for basic authentication, sniffing off, health checks off and gzip on.
  The two are exclusive: with signing enabled the user name and the password play no
  role, and with signing disabled the session and the signing client play none.
\<close>

theorem NewElasticSearch_client_options:
  "(NewElasticSearch lib c = Return (Inr s) \<longrightarrow>
      (if ElasticSearch_AWSSigning_Enabled c
       then \<exists>sess awsClient.
              session_NewSession lib = Inr sess \<and>
              aws_signing_client_New lib
                (v4_NewSigner
                   (if ElasticSearch_AWSSigning_RoleArn c \<noteq> []
                    then stscreds_NewCredentials sess (ElasticSearch_AWSSigning_RoleArn c)
                    else ec2rolecreds_NewCredentials sess))
                None awsService (ElasticSearch_AWSSigning_AWSRegion c) = Inr awsClient \<and>
              elastic_NewClient lib
                [SetURL (ElasticSearch_Server c), SetScheme ''https'', SetHttpClient awsClient,
                 SetSniff False, SetHealthcheck False, SetGzip False] = Inr (ELSClient s)
       else elastic_NewClient lib
              [SetURL (ElasticSearch_Server c),
               SetBasicAuth (ElasticSearch_Username c) (ElasticSearch_Password c),
               SetSniff False, SetHealthcheck False, SetGzip True] = Inr (ELSClient s))) \<and>
   (ElasticSearch_AWSSigning_Enabled c \<longrightarrow>
      NewElasticSearch lib (c\<lparr>ElasticSearch_Username := u, ElasticSearch_Password := p\<rparr>) =
        NewElasticSearch lib c) \<and>
   (\<not> ElasticSearch_AWSSigning_Enabled c \<longrightarrow>
      NewElasticSearch (lib\<lparr>session_NewSession := new_session, aws_signing_client_New := new_signing\<rparr>) c =
        NewElasticSearch lib c)"
  by (auto simp add: NewElasticSearch_def new_sink_def Let_def split: sum.splits if_splits)

theorem NewElasticSearch_client_options_witness:
  "(\<exists>s. NewElasticSearch recording_libs signed_config = Return (Inr s) \<and>
        ELSClient s =
          [SetURL ''http://es:9200'', SetScheme ''https'',
           SetHttpClient (v4_NewSigner (ec2rolecreds_NewCredentials ''ambient''), ''es'', ''us-east-1''),
           SetSniff False, SetHealthcheck False, SetGzip False]) \<and>
   (\<exists>s. NewElasticSearch recording_libs basic_config = Return (Inr s) \<and>
        ELSClient s =
          [SetURL ''http://es:9200'', SetBasicAuth ''elastic'' ''changeme'',
           SetSniff False, SetHealthcheck False, SetGzip True])"
proof -
  obtain s1 where s1: "NewElasticSearch recording_libs signed_config = Return (Inr s1)"
    by (simp add: NewElasticSearch_def recording_libs_def signed_config_def basic_config_def)
  obtain s2 where s2: "NewElasticSearch recording_libs basic_config = Return (Inr s2)"
    by (simp add: NewElasticSearch_def recording_libs_def basic_config_def)
  have en: "ElasticSearch_AWSSigning_Enabled signed_config"
       "\<not> ElasticSearch_AWSSigning_Enabled basic_config"
    by (simp_all add: signed_config_def basic_config_def)
  from NewElasticSearch_client_options [of recording_libs signed_config s1] s1 en
  have "ELSClient s1 =
          [SetURL ''http://es:9200'', SetScheme ''https'',
           SetHttpClient (v4_NewSigner (ec2rolecreds_NewCredentials ''ambient''), ''es'', ''us-east-1''),
           SetSniff False, SetHealthcheck False, SetGzip False]"
    by (auto simp add: recording_libs_def signed_config_def basic_config_def awsService_def)
  moreover
  from NewElasticSearch_client_options [of recording_libs basic_config s2] s2 en
  have "ELSClient s2 =
          [SetURL ''http://es:9200'', SetBasicAuth ''elastic'' ''changeme'',
           SetSniff False, SetHealthcheck False, SetGzip True]"
    by (auto simp add: recording_libs_def basic_config_def)
  ultimately show ?thesis using s1 s2 by blast
qed

subsection \<open>SendMessage\<close>

text \<open>
  C9. For every message and every world, \<open>SendMessage\<close> returns no error and leaves
  the world as it is: no request is issued, nothing is logged, nothing changes.
\<close>

theorem SendMessage_noop: "SendMessage msg w = (None, w)"
  by (simp add: SendMessage_def)

subsection \<open>What a call leaves alone\<close>

text \<open>
  C10. A call of \<open>SendEvent\<close> with the value of the caller's event leaves the sink as
  it is (all its fields: client handle, server, index base name, shard and replica
  counts, document type, cluster label) and leaves the caller's event as it is; the
  event with the cluster label of the sink is the copy that the write request carries.
\<close>

theorem SendEvent_frame:
  fixes w :: "('c, 'p, 'e, 'b) caller_world"
  shows "sink (snd (SendEvent en (caller_event w) w)) = sink w \<and>
         caller_event (snd (SendEvent en (caller_event w) w)) = caller_event w \<and>
         (\<forall>n ty ev. IndexReq n ty ev \<in> set (issued (effects_of en (caller_event w) w)) \<longrightarrow>
            ev = (caller_event w)\<lparr>Cluster := ClusterName (sink w)\<rparr>)"
proof -
  from SendEvent_script [of en "caller_event w" w] obtain ac a1 a2 where
    e: "effects_of en (caller_event w) w =
          snd (script en (sink w) (ticks w) (caller_event w) (exists_answer en w) ac a1 a2)" and
    s: "sink (snd (SendEvent en (caller_event w) w)) = sink w"
    by blast
  have c: "caller_event (snd (SendEvent en (caller_event w) w)) = caller_event w"
    by (subst SendEvent_frame_eq) simp
  have "\<forall>n ty ev. IndexReq n ty ev \<in> set (issued (effects_of en (caller_event w) w)) \<longrightarrow>
            ev = (caller_event w)\<lparr>Cluster := ClusterName (sink w)\<rparr>"
    unfolding e
    by (cases "exists_answer en w" rule: sum_bool_cases; cases ac; cases a1; cases a2) simp_all
  with s c show ?thesis by blast
qed

theorem SendEvent_frame_witness:
  "sink (snd (SendEvent (store_env march_7 never id) (caller_event (caller_of pod_event []))
      (caller_of pod_event []))) = k8s_sink \<and>
   caller_event (snd (SendEvent (store_env march_7 never id)
      (caller_event (caller_of pod_event [])) (caller_of pod_event []))) = pod_event \<and>
   Cluster pod_event = ''dev'' \<and>
   IndexReq ''k8sevents-07-03-2024'' ''botkube-event''
     \<lparr>Cluster = ''prod'', Fields = ''pod crashed''\<rparr>
     \<in> set (issued (effects_of (store_env march_7 never id)
              (caller_event (caller_of pod_event [])) (caller_of pod_event [])))"
proof -
  have passed: "caller_event (caller_of pod_event []) = pod_event"
    by (simp add: caller_of_def)
  have before: "sink (caller_of pod_event []) = k8s_sink"
    by (simp add: caller_of_def)
  have written:
    "IndexReq ''k8sevents-07-03-2024'' ''botkube-event''
       \<lparr>Cluster = ''prod'', Fields = ''pod crashed''\<rparr>
       \<in> set (issued (effects_of (store_env march_7 never id)
                (caller_event (caller_of pod_event [])) (caller_of pod_event [])))"
    unfolding passed by (simp add: effects_of_def run_caller) (simp add: caller_of_def)
  from SendEvent_frame [of "store_env march_7 never id" "caller_of pod_event []"]
       passed before written
  show ?thesis by (simp add: pod_event_def)
qed

end
